theory Spec2Isabelle
  imports Complex_Main "HOL-Library.Sublist" "HOL-Library.List_Lexorder" "HOL-Library.Char_ord"
begin

section \<open>Python values and faults\<close>

text \<open>
  The exceptions the modelled code can raise. A function that may raise returns
  \<open>py_error + 'a\<close>, with \<open>Inl\<close> for the exception that leaves the function.
\<close>

datatype py_error =
    ZeroDivisionError
  | TypeError
  | ValueError
  | KeyError
  | IndexError
  | AttributeError
  | JSONDecodeError
  | IntegrityError
  | OverflowError

definition then_do :: "py_error + 'a \<Rightarrow> ('a \<Rightarrow> py_error + 'b) \<Rightarrow> py_error + 'b" where
  \<comment> \<open>Sequencing: the first exception raised leaves the function.\<close>
  "then_do m f = (case m of Inl e \<Rightarrow> Inl e | Inr x \<Rightarrow> f x)"

subsection \<open>Floats\<close>

text \<open>
  A Python float is a finite number, one of the two infinities, or not-a-number. The
  finite floats are written as the real numbers they stand for. What is modelled of
  the binary64 arithmetic is its range: a result whose magnitude reaches
  \<open>OVERFLOW_THRESHOLD\<close> is an infinity for \<open>+\<close>, \<open>-\<close>, \<open>*\<close> and \<open>/\<close>, and an
  OverflowError for \<open>math.exp\<close> and \<open>**\<close>; the infinities and not-a-number propagate as
  in IEEE 754; a division by zero raises ZeroDivisionError whatever the dividend.
  The rounding of a finite result to the nearest float, the underflow to zero and the
  sign of zero are left out: a finite result is the exact real number.
\<close>

datatype pyfloat = Fin real | PosInf | NegInf | NaN

definition DBL_MAX :: real where
  \<comment> \<open>The largest finite float.\<close>
  "DBL_MAX = 2 ^ 1024 - 2 ^ 971"

definition OVERFLOW_THRESHOLD :: real where
  \<comment> \<open>The least magnitude that rounds to an infinity: \<open>DBL_MAX\<close> plus half a unit in the
      last place.\<close>
  "OVERFLOW_THRESHOLD = 2 ^ 1024 - 2 ^ 970"

definition fl :: "real \<Rightarrow> pyfloat" where
  \<comment> \<open>The float of an exact result of \<open>+\<close>, \<open>-\<close>, \<open>*\<close> or \<open>/\<close>.\<close>
  "fl x = (if OVERFLOW_THRESHOLD \<le> x then PosInf
           else if x \<le> - OVERFLOW_THRESHOLD then NegInf
           else Fin x)"

fun fneg :: "pyfloat \<Rightarrow> pyfloat" where
  "fneg (Fin x) = Fin (- x)"
| "fneg PosInf = NegInf"
| "fneg NegInf = PosInf"
| "fneg NaN = NaN"

fun fadd :: "pyfloat \<Rightarrow> pyfloat \<Rightarrow> pyfloat" where
  "fadd (Fin x) (Fin y) = fl (x + y)"
| "fadd NaN b = NaN"
| "fadd a NaN = NaN"
| "fadd PosInf NegInf = NaN"
| "fadd NegInf PosInf = NaN"
| "fadd PosInf b = PosInf"
| "fadd a PosInf = PosInf"
| "fadd NegInf b = NegInf"
| "fadd a NegInf = NegInf"

definition fsub :: "pyfloat \<Rightarrow> pyfloat \<Rightarrow> pyfloat" where
  "fsub a b = fadd a (fneg b)"

definition signed_inf :: "bool \<Rightarrow> pyfloat" where
  "signed_inf positive = (if positive then PosInf else NegInf)"

fun fmul :: "pyfloat \<Rightarrow> pyfloat \<Rightarrow> pyfloat" where
  "fmul (Fin x) (Fin y) = fl (x * y)"
| "fmul NaN b = NaN"
| "fmul a NaN = NaN"
| "fmul (Fin x) PosInf = (if x = 0 then NaN else signed_inf (0 < x))"
| "fmul (Fin x) NegInf = (if x = 0 then NaN else signed_inf (x < 0))"
| "fmul PosInf (Fin y) = (if y = 0 then NaN else signed_inf (0 < y))"
| "fmul NegInf (Fin y) = (if y = 0 then NaN else signed_inf (y < 0))"
| "fmul PosInf PosInf = PosInf"
| "fmul PosInf NegInf = NegInf"
| "fmul NegInf PosInf = NegInf"
| "fmul NegInf NegInf = PosInf"

fun fdiv :: "pyfloat \<Rightarrow> pyfloat \<Rightarrow> py_error + pyfloat" where
  \<comment> \<open>\<open>a / b\<close>: Python raises on a zero divisor, also for an infinite or not-a-number
      dividend.\<close>
  "fdiv (Fin x) (Fin y) = (if y = 0 then Inl ZeroDivisionError else Inr (fl (x / y)))"
| "fdiv PosInf (Fin y) = (if y = 0 then Inl ZeroDivisionError else Inr (signed_inf (0 < y)))"
| "fdiv NegInf (Fin y) = (if y = 0 then Inl ZeroDivisionError else Inr (signed_inf (y < 0)))"
| "fdiv NaN (Fin y) = (if y = 0 then Inl ZeroDivisionError else Inr NaN)"
| "fdiv a NaN = Inr NaN"
| "fdiv NaN b = Inr NaN"
| "fdiv (Fin x) b = Inr (Fin 0)"
| "fdiv a b = Inr NaN"

fun math_exp :: "pyfloat \<Rightarrow> py_error + pyfloat" where
  \<comment> \<open>\<open>math.exp\<close>: OverflowError when a finite argument gives a result out of range.\<close>
  "math_exp (Fin x) =
     (if OVERFLOW_THRESHOLD \<le> exp x then Inl OverflowError else Inr (Fin (exp x)))"
| "math_exp PosInf = Inr PosInf"
| "math_exp NegInf = Inr (Fin 0)"
| "math_exp NaN = Inr NaN"

fun pow2 :: "pyfloat \<Rightarrow> py_error + pyfloat" where
  \<comment> \<open>\<open>x ** 2\<close>: OverflowError when a finite base gives a result out of range.\<close>
  "pow2 (Fin x) =
     (if OVERFLOW_THRESHOLD \<le> x ^ 2 then Inl OverflowError else Inr (Fin (x ^ 2)))"
| "pow2 PosInf = Inr PosInf"
| "pow2 NegInf = Inr PosInf"
| "pow2 NaN = Inr NaN"

text \<open>
  The value of \<open>x ** 5.26\<close>: Python 3 returns a complex number when the base is
  negative and finite (the exponent is not an integer), and raises OverflowError when
  the magnitude of the result is out of range, for a base of either sign. A complex
  number is not looked into any further.
\<close>

datatype pynum = PyFloat pyfloat | PyComplex

fun float_pow :: "pyfloat \<Rightarrow> real \<Rightarrow> py_error + pynum" where
  "float_pow (Fin b) e =
     (if OVERFLOW_THRESHOLD \<le> \<bar>b\<bar> powr e then Inl OverflowError
      else if b < 0 then Inr PyComplex
      else Inr (PyFloat (Fin (b powr e))))"
| "float_pow PosInf e = Inr (PyFloat PosInf)"
| "float_pow NegInf e = Inr (PyFloat PosInf)"
| "float_pow NaN e = Inr (PyFloat NaN)"

fun lt_zero :: "pyfloat \<Rightarrow> bool" where
  \<comment> \<open>\<open>x < 0\<close>, which is also \<open>0 > x\<close>: false for not-a-number.\<close>
  "lt_zero (Fin x) = (x < 0)"
| "lt_zero NegInf = True"
| "lt_zero PosInf = False"
| "lt_zero NaN = False"

definition max_zero :: "pyfloat \<Rightarrow> pyfloat" where
  \<comment> \<open>\<open>max(x, 0)\<close>: the second argument replaces the first only when it compares
      greater, so not-a-number stays.\<close>
  "max_zero x = (if lt_zero x then Fin 0 else x)"

definition round_half_even :: "real \<Rightarrow> int" where
  "round_half_even y =
     (let f = \<lfloor>y\<rfloor> in
      if y - of_int f < 1 / 2 then f
      else if 1 / 2 < y - of_int f then f + 1
      else if even f then f else f + 1)"

definition round2 :: "real \<Rightarrow> real" where
  \<comment> \<open>\<open>round(x, 2)\<close> of a finite float: the nearest multiple of 0.01, ties to even.\<close>
  "round2 x = of_int (round_half_even (x * 100)) / 100"

fun py_round2 :: "pyfloat \<Rightarrow> pyfloat" where
  \<comment> \<open>\<open>round(x, 2)\<close>: an infinity and not-a-number are returned as they are.\<close>
  "py_round2 (Fin x) = Fin (round2 x)"
| "py_round2 PosInf = PosInf"
| "py_round2 NegInf = NegInf"
| "py_round2 NaN = NaN"

section \<open>ET0 engine (compute\_et0.py)\<close>

definition saturation_vapor_pressure :: "pyfloat option \<Rightarrow> py_error + pyfloat option" where
  "saturation_vapor_pressure T =
     (case T of
        None \<Rightarrow> Inr None
      | Some t \<Rightarrow>
          then_do (fdiv (fmul (Fin 17.27) t) (fadd t (Fin 237.3))) (\<lambda>q.
          then_do (math_exp q) (\<lambda>e. Inr (Some (fmul (Fin 0.6108) e)))))"

definition delta_svp :: "pyfloat option \<Rightarrow> py_error + pyfloat option" where
  "delta_svp T =
     (case T of
        None \<Rightarrow> Inr None
      | Some t \<Rightarrow>
          then_do (saturation_vapor_pressure (Some t)) (\<lambda>svp.
            case svp of
              None \<Rightarrow> Inl TypeError
            | Some s \<Rightarrow>
                then_do (pow2 (fadd t (Fin 237.3))) (\<lambda>sq.
                then_do (fdiv (fmul (Fin 4098) s) sq) (\<lambda>d. Inr (Some d)))))"

definition psychrometric_constant :: "pyfloat \<Rightarrow> py_error + pynum" where
  "psychrometric_constant alt =
     then_do (fdiv (fsub (Fin 293) (fmul (Fin 0.0065) alt)) (Fin 293)) (\<lambda>b.
     then_do (float_pow b 5.26) (\<lambda>p.
       case p of
         PyComplex \<Rightarrow> Inr PyComplex
       | PyFloat p' \<Rightarrow> Inr (PyFloat (fmul (Fin 0.000665) (fmul (Fin 101.3) p')))))"

text \<open>
  The body of the \<open>try\<close> block of \<open>compute_et0\<close> (lines 62 to 72), with the exception
  it raises, if any. A missing slope is a TypeError at \<open>0.408 * delta\<close>; a complex
  psychrometric constant makes \<open>et0\<close> complex, if no division raises before, and
  \<open>max(et0, 0)\<close> then raises TypeError; both divisions raise ZeroDivisionError on a
  zero divisor.
\<close>

definition penman_monteith ::
  "pyfloat \<Rightarrow> pyfloat \<Rightarrow> pyfloat \<Rightarrow> pyfloat option \<Rightarrow> pynum \<Rightarrow> pyfloat \<Rightarrow> pyfloat
     \<Rightarrow> py_error + pyfloat" where
  "penman_monteith tmean es ea delta gamma Rn wind =
     (case delta of
        None \<Rightarrow> Inl TypeError
      | Some d \<Rightarrow>
          (case gamma of
             PyComplex \<Rightarrow> then_do (fdiv (Fin 900) (fadd tmean (Fin 273))) (\<lambda>q. Inl TypeError)
           | PyFloat g \<Rightarrow>
               let numerator1 = fmul (fmul (Fin 0.408) d) (fsub Rn (Fin 0)) in
               then_do (fdiv (Fin 900) (fadd tmean (Fin 273))) (\<lambda>q.
                 let numerator2 = fmul (fmul (fmul g q) wind) (fsub es ea);
                     denominator = fadd d (fmul g (fadd (Fin 1) (fmul (Fin 0.34) wind)))
                 in then_do (fdiv (fadd numerator1 numerator2) denominator) (\<lambda>et0.
                      Inr (py_round2 (max_zero et0))))))"

definition ALTITUDE_DEFAULT :: pyfloat where
  "ALTITUDE_DEFAULT = Fin 143"

text \<open>
  \<open>compute_et0\<close>, for float arguments. The saturation vapour pressure, its slope and
  the psychrometric constant are computed before the \<open>try\<close> block: an exception
  raised there leaves the function. An exception raised in the \<open>try\<close> block is caught
  and \<open>None\<close> is returned.
\<close>

definition compute_et0 ::
  "pyfloat option \<Rightarrow> pyfloat option \<Rightarrow> pyfloat option \<Rightarrow> pyfloat option \<Rightarrow> pyfloat option
     \<Rightarrow> pyfloat \<Rightarrow> py_error + pyfloat option" where
  "compute_et0 tmin tmax solar_rad rh wind altitude =
     (case (tmin, tmax, solar_rad, rh, wind) of
        (Some tmin', Some tmax', Some rad, Some rh', Some wind') \<Rightarrow>
          if lt_zero rad then Inr None
          else
            then_do (fdiv (fadd tmin' tmax') (Fin 2)) (\<lambda>tmean.
            then_do (saturation_vapor_pressure (Some tmean)) (\<lambda>es_opt.
              case es_opt of
                None \<Rightarrow> Inl TypeError
              | Some es \<Rightarrow>
                  then_do (fdiv rh' (Fin 100)) (\<lambda>fraction.
                  let ea = fmul es fraction in
                  then_do (delta_svp (Some tmean)) (\<lambda>delta.
                  then_do (psychrometric_constant altitude) (\<lambda>gamma.
                    Inr (case penman_monteith tmean es ea delta gamma rad wind' of
                           Inl e \<Rightarrow> None
                         | Inr v \<Rightarrow> Some v))))))
      | _ \<Rightarrow> Inr None)"

section \<open>Weather fetcher (fetch\_nasa\_power.py)\<close>

text \<open>
  A decoded JSON document, as \<open>json.load\<close> and \<open>response.json()\<close> return it.
  \<open>JNull\<close> is Python's \<open>None\<close>; numbers are the finite ones, as reals; an object is the list of its
  items in insertion order (a decoded object has no repeated key).
\<close>

datatype json =
    JNull
  | JBool bool
  | JNum real
  | JStr string
  | JArr "json list"
  | JObj "(string \<times> json) list"

fun truthy :: "json \<Rightarrow> bool" where
  "truthy JNull = False"
| "truthy (JBool b) = b"
| "truthy (JNum x) = (x \<noteq> 0)"
| "truthy (JStr s) = (s \<noteq> [])"
| "truthy (JArr xs) = (xs \<noteq> [])"
| "truthy (JObj kvs) = (kvs \<noteq> [])"

fun py_get :: "json \<Rightarrow> string \<Rightarrow> json \<Rightarrow> py_error + json" where
  \<comment> \<open>\<open>x.get(k, d)\<close>: only a dict has the method.\<close>
  "py_get (JObj kvs) k d = Inr (case map_of kvs k of None \<Rightarrow> d | Some v \<Rightarrow> v)"
| "py_get _ k d = Inl AttributeError"

fun py_getitem :: "json \<Rightarrow> string \<Rightarrow> py_error + json" where
  \<comment> \<open>\<open>x[k]\<close> for a string key \<open>k\<close>.\<close>
  "py_getitem (JObj kvs) k = (case map_of kvs k of None \<Rightarrow> Inl KeyError | Some v \<Rightarrow> Inr v)"
| "py_getitem _ k = Inl TypeError"

fun py_contains :: "string \<Rightarrow> json \<Rightarrow> py_error + bool" where
  \<comment> \<open>\<open>k in x\<close> for a string \<open>k\<close>.\<close>
  "py_contains k (JObj kvs) = Inr (k \<in> fst ` set kvs)"
| "py_contains k (JArr xs) = Inr (JStr k \<in> set xs)"
| "py_contains k (JStr s) = Inr (sublist k s)"
| "py_contains k _ = Inl TypeError"

fun py_keys :: "json \<Rightarrow> py_error + string list" where
  "py_keys (JObj kvs) = Inr (map fst kvs)"
| "py_keys _ = Inl AttributeError"

text \<open>
  What the network gives for one request. \<open>RequestFailed\<close> is every outcome for which
  \<open>requests.get\<close> or \<open>raise_for_status\<close> raises a \<open>RequestException\<close> (network
  fault, timeout, non-success status). \<open>Body None\<close> is a successful response whose
  body is not JSON, \<open>Body (Some j)\<close> one whose body decodes to \<open>j\<close>.
\<close>

datatype http_response = RequestFailed | Body "json option"

definition NO_DATA :: json where
  "NO_DATA = JNum (- 999)"

definition field :: "json \<Rightarrow> string \<Rightarrow> string \<Rightarrow> py_error + json" where
  \<comment> \<open>\<open>None if data[param].get(date_key) == -999.0 else data[param].get(date_key)\<close>\<close>
  "field data param date_key =
     then_do (py_getitem data param) (\<lambda>series.
     then_do (py_get series date_key JNull) (\<lambda>v.
       Inr (if v = NO_DATA then JNull else v)))"

definition day_record :: "json \<Rightarrow> string \<Rightarrow> py_error + (string \<times> json) list" where
  "day_record data date_key =
     then_do (field data ''T2M_MIN'' date_key) (\<lambda>tmin.
     then_do (field data ''T2M_MAX'' date_key) (\<lambda>tmax.
     then_do (field data ''ALLSKY_SFC_SW_DWN'' date_key) (\<lambda>radiation.
     then_do (field data ''PRECTOTCORR'' date_key) (\<lambda>rain.
     then_do (field data ''RH2M'' date_key) (\<lambda>rh.
     then_do (field data ''WS2M'' date_key) (\<lambda>wind.
       Inr [(''date'', JStr date_key), (''tmin'', tmin), (''tmax'', tmax),
            (''radiation'', radiation), (''rain'', rain), (''rh'', rh),
            (''wind'', wind)]))))))"

fun day_records :: "json \<Rightarrow> string list \<Rightarrow> py_error + (string \<times> json) list list" where
  \<comment> \<open>The loop of lines 41 to 51 over the dates of the T2M\_MIN series.\<close>
  "day_records data [] = Inr []"
| "day_records data (date_key # ks) =
     then_do (day_record data date_key) (\<lambda>r.
     then_do (day_records data ks) (\<lambda>rs. Inr (r # rs)))"

definition parameter_of :: "json \<Rightarrow> py_error + json" where
  \<comment> \<open>\<open>response.json().get("properties", {}).get("parameter", {})\<close>\<close>
  "parameter_of payload =
     then_do (py_get payload ''properties'' (JObj [])) (\<lambda>props.
       py_get props ''parameter'' (JObj []))"

definition fetch_data :: "http_response \<Rightarrow> py_error + (string \<times> json) list list" where
  "fetch_data response =
     (case response of
        RequestFailed \<Rightarrow> Inr []
      | Body None \<Rightarrow> Inl JSONDecodeError
      | Body (Some payload) \<Rightarrow>
          then_do (parameter_of payload) (\<lambda>data.
            if \<not> truthy data then Inr []
            else
              then_do (py_contains ''T2M_MIN'' data) (\<lambda>present.
                if \<not> present then Inr []
                else
                  then_do (py_getitem data ''T2M_MIN'') (\<lambda>series.
                  then_do (py_keys series) (\<lambda>keys.
                    day_records data keys)))))"

definition FIELDS :: "(string \<times> string) list" where
  \<comment> \<open>The output fields of lines 45 to 50, each with the source parameter it reads.\<close>
  "FIELDS = [(''tmin'', ''T2M_MIN''), (''tmax'', ''T2M_MAX''),
             (''radiation'', ''ALLSKY_SFC_SW_DWN''), (''rain'', ''PRECTOTCORR''),
             (''rh'', ''RH2M''), (''wind'', ''WS2M'')]"

record grid_point =
  point_name :: string
  coordinates :: "real \<times> real"
  point_geohash :: json
  point_bbox :: json

fun format_1f :: "json \<Rightarrow> py_error + unit" where
  \<comment> \<open>The format specification \<open>:.1f\<close> of an f-string.\<close>
  "format_1f (JNum x) = Inr ()"
| "format_1f (JBool b) = Inr ()"
| "format_1f (JStr s) = Inl ValueError"
| "format_1f _ = Inl TypeError"

definition print_sample :: "(string \<times> json) list \<Rightarrow> py_error + unit" where
  \<comment> \<open>Line 138: the summary of the first day.\<close>
  "print_sample sample =
     then_do (py_getitem (JObj sample) ''date'') (\<lambda>_.
     then_do (py_getitem (JObj sample) ''tmin'') (\<lambda>tmin.
     then_do (format_1f tmin) (\<lambda>_.
     then_do (py_getitem (JObj sample) ''tmax'') (\<lambda>tmax.
     then_do (format_1f tmax) (\<lambda>_.
     then_do (py_getitem (JObj sample) ''rain'') (\<lambda>_. Inr ()))))))"

text \<open>
  The batch loop of lines 114 to 140, over the grid points, each paired with the
  response the network gives for it. An entry of \<open>all_results\<close> holds the point (its
  name, geohash, coordinates and bounding box) and its \<open>weather_data\<close>;
  \<open>successful_fetches\<close> is the length of the list returned.
\<close>

type_synonym result_entry = "grid_point \<times> (string \<times> json) list list"

fun main_loop :: "(grid_point \<times> http_response) list \<Rightarrow> py_error + result_entry list" where
  "main_loop [] = Inr []"
| "main_loop ((point, response) # rest) =
     then_do (fetch_data response) (\<lambda>daily_data.
       if daily_data \<noteq> [] then
         then_do (print_sample (hd daily_data)) (\<lambda>_.
         then_do (main_loop rest) (\<lambda>all_results. Inr ((point, daily_data) # all_results)))
       else main_loop rest)"

subsection \<open>Example inputs\<close>

definition cell_a :: grid_point where
  "cell_a = \<lparr>point_name = ''grid_a'', coordinates = (36.5, 8.9),
             point_geohash = JStr ''a'', point_bbox = JNull\<rparr>"

definition cell_b :: grid_point where
  "cell_b = \<lparr>point_name = ''grid_b'', coordinates = (36.6, 8.9),
             point_geohash = JStr ''b'', point_bbox = JNull\<rparr>"

definition payload_ok :: json where
  "payload_ok = JObj [(''properties'', JObj [(''parameter'', JObj [
     (''T2M_MIN'', JObj [(''20240501'', JNum 12), (''20240502'', JNum (- 999))]),
     (''T2M_MAX'', JObj [(''20240501'', JNum 22), (''20240502'', JNum 21)]),
     (''ALLSKY_SFC_SW_DWN'', JObj [(''20240501'', JNum (- 999)), (''20240502'', JNum 18)]),
     (''PRECTOTCORR'', JObj [(''20240501'', JNum 0), (''20240502'', JNum 3)]),
     (''RH2M'', JObj [(''20240501'', JNum 50), (''20240502'', JNum 60)]),
     (''WS2M'', JObj [(''20240501'', JNum 2)])])])]"

definition payload_no_tmax :: json where
  "payload_no_tmax = JObj [(''properties'', JObj [(''parameter'', JObj [
     (''T2M_MIN'', JObj [(''20240501'', JNum 12)])])])]"

section \<open>Ingestion pipeline (ingest\_climate.py)\<close>

text \<open>
  The entries of the exchange document, as \<open>ingest_climate.py\<close> reads them: a key
  read with \<open>.get\<close> is optional, \<open>day['date']\<close> is required. The type \<open>'d\<close> of dates
  is left open: the pipeline only compares dates for equality. The daily values are
  floats, which \<open>compute_et0\<close> receives.
\<close>

record 'd day =
  date :: 'd
  tmin :: "pyfloat option"
  tmax :: "pyfloat option"
  radiation :: "pyfloat option"
  rain :: "pyfloat option"
  rh :: "pyfloat option"
  wind :: "pyfloat option"

record 'd result =
  geohash :: "string option"
  latitude :: "real option"
  longitude :: "real option"
  bbox :: "real list list list option"
  weather_data :: "'d day list"

subsection \<open>Grid points\<close>

text \<open>
  A row of \<open>grid_100m\<close>. The geometry is kept as the ring of coordinate pairs whose
  text \<open>POLYGON((x y, ...))\<close> the code writes.
\<close>

record 't grid_row =
  g_geohash :: string
  g_lat :: real
  g_lon :: real
  g_geom :: "(real \<times> real) list option"
  g_created_at :: 't

type_synonym grid_tuple = "string \<times> real \<times> real \<times> (real \<times> real) list option"

definition polygon_of :: "real list list list option \<Rightarrow> py_error + (real \<times> real) list option" where
  \<comment> \<open>Lines 64 to 71: the closed outer ring of the bounding box, when it has four points.\<close>
  "polygon_of b =
     (case b of
        None \<Rightarrow> Inr None
      | Some rings \<Rightarrow>
          if rings \<noteq> [] \<and> 0 < length rings \<and> 4 \<le> length (hd rings) then
            let coords = hd rings;
                coords' = (if hd coords \<noteq> last coords then coords @ [hd coords] else coords)
            in if \<forall>c \<in> set coords'. 2 \<le> length c
               then Inr (Some (map (\<lambda>c. (c ! 0, c ! 1)) coords'))
               else Inl IndexError
          else Inr None)"

definition is_truthy_str :: "string option \<Rightarrow> bool" where
  "is_truthy_str s = (case s of None \<Rightarrow> False | Some v \<Rightarrow> v \<noteq> [])"

definition is_truthy_num :: "real option \<Rightarrow> bool" where
  "is_truthy_num x = (case x of None \<Rightarrow> False | Some v \<Rightarrow> v \<noteq> 0)"

fun unique_grid_loop :: "'d result list \<Rightarrow> grid_tuple list \<Rightarrow> py_error + grid_tuple list" where
  \<comment> \<open>The loop of lines 58 to 78; the dict \<open>unique_grid\<close> as the list of its values.\<close>
  "unique_grid_loop [] unique_grid = Inr unique_grid"
| "unique_grid_loop (r # rest) unique_grid =
     (if is_truthy_str (geohash r) \<and> is_truthy_num (latitude r) \<and> is_truthy_num (longitude r)
      then
        if the (geohash r) \<notin> fst ` set unique_grid then
          then_do (polygon_of (bbox r)) (\<lambda>geom.
            unique_grid_loop rest
              (unique_grid @ [(the (geohash r), the (latitude r), the (longitude r), geom)]))
        else unique_grid_loop rest unique_grid
      else unique_grid_loop rest unique_grid)"

text \<open>
  \<open>INSERT INTO grid_100m (geohash, lat, lon, geom) ... ON CONFLICT (geohash) DO UPDATE
  SET lat, lon, geom, created_at = NOW()\<close> for one tuple. A stored row with the same
  geohash takes the new values and \<open>now\<close> as \<open>created_at\<close>. Otherwise a row is added;
  the statement gives it no \<open>created_at\<close> and the declaration of the table is not among
  the sources, so it has the column default \<open>dflt\<close>, whatever it is.
\<close>

definition upsert_grid_row ::
  "'t \<Rightarrow> 't \<Rightarrow> 't grid_row list \<Rightarrow> grid_tuple \<Rightarrow> 't grid_row list" where
  "upsert_grid_row now dflt tbl t =
     (case t of (g, la, lo, ge) \<Rightarrow>
        if g \<in> g_geohash ` set tbl
        then map (\<lambda>r. if g_geohash r = g
                       then \<lparr>g_geohash = g, g_lat = la, g_lon = lo, g_geom = ge,
                             g_created_at = now\<rparr>
                       else r) tbl
        else tbl @ [\<lparr>g_geohash = g, g_lat = la, g_lon = lo, g_geom = ge,
                     g_created_at = dflt\<rparr>])"

definition ingest_grid_points ::
  "'t \<Rightarrow> 't \<Rightarrow> 't grid_row list \<Rightarrow> 'd result list \<Rightarrow> py_error + ('t grid_row list \<times> nat)" where
  "ingest_grid_points now dflt tbl results =
     then_do (unique_grid_loop results []) (\<lambda>grid_data.
       Inr (foldl (upsert_grid_row now dflt) tbl grid_data, length grid_data))"

subsection \<open>Daily records\<close>

text \<open>
  The tuple appended to \<open>daily_data\<close>:
  (geohash, date, tmin, tmax, radiation, rain, rh, wind, et0).
\<close>

type_synonym 'd daily_tuple =
  "string option \<times> 'd \<times> pyfloat option \<times> pyfloat option \<times> pyfloat option
     \<times> pyfloat option \<times> pyfloat option \<times> pyfloat option \<times> pyfloat option"

text \<open>
  A row of \<open>climate_daily\<close>; \<open>'v\<close> is the type of the numbers of a column: the floats
  the ingestion writes, and the finite numbers the aggregator is studied on.
\<close>

record ('d, 'v) climate_daily_row =
  cd_geohash :: string
  cd_date :: 'd
  cd_tmin :: "'v option"
  cd_tmax :: "'v option"
  cd_radiation :: "'v option"
  cd_rain :: "'v option"
  cd_rh :: "'v option"
  cd_wind :: "'v option"
  cd_et0 :: "'v option"

fun day_tuples :: "string option \<Rightarrow> 'd day list \<Rightarrow> py_error + 'd daily_tuple list" where
  \<comment> \<open>The inner loop of lines 106 to 126.\<close>
  "day_tuples g [] = Inr []"
| "day_tuples g (d # ds) =
     then_do (compute_et0 (tmin d) (tmax d) (radiation d) (rh d) (wind d) ALTITUDE_DEFAULT)
       (\<lambda>et0.
     then_do (day_tuples g ds) (\<lambda>ts.
       Inr ((g, date d, tmin d, tmax d, radiation d, rain d, rh d, wind d, et0) # ts)))"

fun build_daily_data :: "'d result list \<Rightarrow> py_error + 'd daily_tuple list" where
  \<comment> \<open>The outer loop of lines 101 to 126.\<close>
  "build_daily_data [] = Inr []"
| "build_daily_data (r # rest) =
     then_do (day_tuples (geohash r) (weather_data r)) (\<lambda>ts.
     then_do (build_daily_data rest) (\<lambda>us. Inr (ts @ us)))"

definition key_of :: "'d daily_tuple \<Rightarrow> string option \<times> 'd" where
  \<comment> \<open>\<open>(record[0], record[1])\<close>\<close>
  "key_of t = (fst t, fst (snd t))"

fun unique_data_loop :: "'d daily_tuple list \<Rightarrow> 'd daily_tuple list \<Rightarrow> 'd daily_tuple list" where
  \<comment> \<open>Lines 130 to 136; the dict \<open>unique_data\<close> as the list of its values.\<close>
  "unique_data_loop [] unique_data = unique_data"
| "unique_data_loop (record # rest) unique_data =
     unique_data_loop rest
       (if key_of record \<notin> key_of ` set unique_data then unique_data @ [record]
        else unique_data)"

fun chunks :: "nat \<Rightarrow> 'a list \<Rightarrow> 'a list list" where
  \<comment> \<open>\<open>[xs[i:i + n] for i in range(0, len(xs), n)]\<close> for a positive \<open>n\<close>.\<close>
  "chunks n [] = []"
| "chunks n (x # xs) = take (Suc (n - 1)) (x # xs) # chunks n (drop (Suc (n - 1)) (x # xs))"

definition row_of :: "string \<Rightarrow> 'd daily_tuple \<Rightarrow> ('d, pyfloat) climate_daily_row" where
  "row_of g t =
     (case t of (_, d, tmin', tmax', radiation', rain', rh', wind', et0) \<Rightarrow>
        \<lparr>cd_geohash = g, cd_date = d, cd_tmin = tmin', cd_tmax = tmax',
         cd_radiation = radiation', cd_rain = rain', cd_rh = rh', cd_wind = wind',
         cd_et0 = et0\<rparr>)"

definition cd_key :: "('d, 'v) climate_daily_row \<Rightarrow> string \<times> 'd" where
  "cd_key r = (cd_geohash r, cd_date r)"

text \<open>
  \<open>INSERT INTO climate_daily ... ON CONFLICT (geohash, date) DO NOTHING\<close> for one
  tuple. The declaration of the table is not among the sources.
  Modelled from the spec: the pair (cell identifier, date) is the identity of a daily
  record and is unique, so a tuple with no identifier is refused by the store, and a
  tuple whose key is already stored is skipped.
\<close>

definition insert_do_nothing ::
  "('d, pyfloat) climate_daily_row list \<Rightarrow> 'd daily_tuple \<Rightarrow> py_error + ('d, pyfloat) climate_daily_row list" where
  "insert_do_nothing tbl t =
     (case fst t of
        None \<Rightarrow> Inl IntegrityError
      | Some g \<Rightarrow>
          if (g, fst (snd t)) \<in> cd_key ` set tbl then Inr tbl
          else Inr (tbl @ [row_of g t]))"

fun execute_values_do_nothing ::
  "('d, pyfloat) climate_daily_row list \<Rightarrow> 'd daily_tuple list \<Rightarrow> py_error + ('d, pyfloat) climate_daily_row list" where
  "execute_values_do_nothing tbl [] = Inr tbl"
| "execute_values_do_nothing tbl (t # ts) =
     then_do (insert_do_nothing tbl t) (\<lambda>tbl'. execute_values_do_nothing tbl' ts)"

fun insert_batches ::
  "('d, pyfloat) climate_daily_row list \<Rightarrow> nat \<Rightarrow> 'd daily_tuple list list
     \<Rightarrow> py_error + (('d, pyfloat) climate_daily_row list \<times> nat)" where
  \<comment> \<open>The loop of lines 145 to 156, with the counter \<open>total_inserted\<close>.\<close>
  "insert_batches tbl total_inserted [] = Inr (tbl, total_inserted)"
| "insert_batches tbl total_inserted (batch # rest) =
     then_do (execute_values_do_nothing tbl batch) (\<lambda>tbl'.
       insert_batches tbl' (total_inserted + length batch) rest)"

text \<open>
  \<open>ingest_climate_daily\<close> on the stored table: the table after the commit and the
  number returned, or the exception that leaves the function before the commit (the
  caller then rolls back, and the table is as before).
\<close>

definition ingest_climate_daily ::
  "('d, pyfloat) climate_daily_row list \<Rightarrow> 'd result list
     \<Rightarrow> py_error + (('d, pyfloat) climate_daily_row list \<times> nat)" where
  "ingest_climate_daily tbl results =
     then_do (build_daily_data results) (\<lambda>daily_data.
       if daily_data \<noteq> [] then
         let daily_data_unique = unique_data_loop daily_data [] in
         insert_batches tbl 0 (chunks 500 daily_data_unique)
       else Inr (tbl, 0))"

subsection \<open>Example inputs\<close>

text \<open>
  A document with one cell whose series has two entries for the same date, a cell on
  the prime meridian, and a table that already holds the first date of the first cell.
\<close>

definition day_a1 :: "string day" where
  "day_a1 = \<lparr>date = ''2024-05-01'', tmin = Some (Fin 10), tmax = Some (Fin 20), radiation = Some (Fin 15),
              rain = Some (Fin 0), rh = None, wind = Some (Fin 2)\<rparr>"

definition day_a2 :: "string day" where
  "day_a2 = \<lparr>date = ''2024-05-01'', tmin = Some (Fin 11), tmax = Some (Fin 21), radiation = Some (Fin 16),
              rain = Some (Fin 1), rh = None, wind = Some (Fin 3)\<rparr>"

definition day_b :: "string day" where
  "day_b = \<lparr>date = ''2024-05-02'', tmin = Some (Fin 12), tmax = Some (Fin 22), radiation = Some (Fin 17),
             rain = Some (Fin 4), rh = None, wind = Some (Fin 1)\<rparr>"

definition entry_abc :: "string result" where
  "entry_abc = \<lparr>geohash = Some ''abc1234'', latitude = Some 36.5, longitude = Some 8.9,
                 bbox = Some [[[8.9, 36.5], [9, 36.5], [9, 36.6], [8.9, 36.6]]],
                 weather_data = [day_a1, day_a2, day_b]\<rparr>"

definition entry_meridian :: "string result" where
  "entry_meridian = \<lparr>geohash = Some ''sp0000a'', latitude = Some 36.5, longitude = Some 0,
                      bbox = None, weather_data = []\<rparr>"

definition row_abc :: "nat grid_row" where
  "row_abc = \<lparr>g_geohash = ''abc1234'', g_lat = 36.5, g_lon = 8.9,
               g_geom = Some [(8.9, 36.5), (9, 36.5), (9, 36.6), (8.9, 36.6), (8.9, 36.5)],
               g_created_at = 7\<rparr>"

definition tuple_a1 :: "string daily_tuple" where
  "tuple_a1 = (Some ''abc1234'', ''2024-05-01'', Some (Fin 10), Some (Fin 20), Some (Fin 15), Some (Fin 0), None,
               Some (Fin 2), None)"

definition tuple_a2 :: "string daily_tuple" where
  "tuple_a2 = (Some ''abc1234'', ''2024-05-01'', Some (Fin 11), Some (Fin 21), Some (Fin 16), Some (Fin 1), None,
               Some (Fin 3), None)"

definition tuple_b :: "string daily_tuple" where
  "tuple_b = (Some ''abc1234'', ''2024-05-02'', Some (Fin 12), Some (Fin 22), Some (Fin 17), Some (Fin 4), None,
              Some (Fin 1), None)"


section \<open>Rolling aggregator (aggregate\_7days.py)\<close>

text \<open>
  A calendar date is its proleptic Gregorian ordinal, as \<open>date.toordinal\<close> gives it:
  day 1 is the first day Python can represent, and \<open>date - timedelta(days=n)\<close> raises
  OverflowError below it. The SQL of the queries is modelled by its meaning on the
  list of the rows of \<open>climate_daily\<close>. The aggregator is studied on tables whose
  numbers are finite: they are reals, and the arithmetic of the database is exact.
\<close>

type_synonym pydate = int


definition non_null :: "'a option list \<Rightarrow> 'a list" where
  "non_null xs = concat (map (\<lambda>x. case x of None \<Rightarrow> [] | Some v \<Rightarrow> [v]) xs)"

definition sql_avg :: "real option list \<Rightarrow> real option" where
  \<comment> \<open>\<open>AVG\<close>: the mean of the non-null values, \<open>NULL\<close> when there is none.\<close>
  "sql_avg xs =
     (let vs = non_null xs in
      if vs = [] then None else Some (sum_list vs / real (length vs)))"

definition sql_sum :: "real option list \<Rightarrow> real option" where
  \<comment> \<open>\<open>SUM\<close>: the sum of the non-null values, \<open>NULL\<close> when there is none.\<close>
  "sql_sum xs = (let vs = non_null xs in if vs = [] then None else Some (sum_list vs))"

definition numeric_round2 :: "real \<Rightarrow> real" where
  \<comment> \<open>\<open>ROUND(x::numeric, 2)\<close>: to two decimal places, ties away from zero.\<close>
  "numeric_round2 x = sgn x * (of_int \<lfloor>\<bar>x\<bar> * 100 + 1 / 2\<rfloor> / 100)"

definition sql_round2 :: "real option \<Rightarrow> real option" where
  \<comment> \<open>\<open>ROUND\<close> of \<open>NULL\<close> is \<open>NULL\<close>.\<close>
  "sql_round2 x = map_option numeric_round2 x"

type_synonym daily_row = "(pydate, real) climate_daily_row"

definition in_window :: "pydate \<Rightarrow> pydate \<Rightarrow> daily_row \<Rightarrow> bool" where
  \<comment> \<open>\<open>date BETWEEN start_date AND target_date\<close>\<close>
  "in_window start_date target_date r \<longleftrightarrow> start_date \<le> cd_date r \<and> cd_date r \<le> target_date"

definition window_rows :: "daily_row list \<Rightarrow> string \<Rightarrow> pydate \<Rightarrow> pydate \<Rightarrow> daily_row list" where
  \<comment> \<open>The rows the query of lines 117 to 131 aggregates:
      \<open>WHERE geohash = %s AND date BETWEEN %s AND %s AND tmin IS NOT NULL\<close>.\<close>
  "window_rows daily g start_date target_date =
     filter (\<lambda>r. cd_geohash r = g \<and> in_window start_date target_date r \<and> cd_tmin r \<noteq> None)
       daily"

text \<open>
  The tuple appended to \<open>weekly_data\<close>: (geohash, start\_date, target\_date, avg\_tmin,
  avg\_tmax, avg\_radiation, total\_rain, avg\_rh, avg\_wind, avg\_et0).
\<close>

type_synonym weekly_tuple =
  "string \<times> pydate \<times> pydate \<times> real option \<times> real option \<times> real option \<times> real option
     \<times> real option \<times> real option \<times> real option"

definition window_query ::
  "daily_row list \<Rightarrow> string \<Rightarrow> pydate \<Rightarrow> pydate \<Rightarrow> nat \<times> weekly_tuple" where
  \<comment> \<open>The row the query returns, \<open>days_count\<close> first, with the tuple it is copied to.\<close>
  "window_query daily g start_date target_date =
     (let rows = window_rows daily g start_date target_date in
      (length rows,
       (g, start_date, target_date,
        sql_round2 (sql_avg (map cd_tmin rows)),
        sql_round2 (sql_avg (map cd_tmax rows)),
        sql_round2 (sql_avg (map cd_radiation rows)),
        sql_round2 (sql_sum (map cd_rain rows)),
        sql_round2 (sql_avg (map cd_rh rows)),
        sql_round2 (sql_avg (map cd_wind rows)),
        sql_round2 (sql_avg (map cd_et0 rows)))))"

definition grid_points_in_window :: "daily_row list \<Rightarrow> pydate \<Rightarrow> pydate \<Rightarrow> string list" where
  \<comment> \<open>\<open>SELECT DISTINCT geohash ... WHERE date BETWEEN ... ORDER BY geohash\<close>; the order
      of the database is taken to be the lexicographic one.\<close>
  "grid_points_in_window daily start_date target_date =
     sort (remdups (map cd_geohash (filter (in_window start_date target_date) daily)))"

fun weekly_loop ::
  "daily_row list \<Rightarrow> pydate \<Rightarrow> pydate \<Rightarrow> int \<Rightarrow> string list \<Rightarrow> weekly_tuple list" where
  \<comment> \<open>The loop of lines 116 to 155.\<close>
  "weekly_loop daily start_date target_date min_days_required [] = []"
| "weekly_loop daily start_date target_date min_days_required (g # rest) =
     (case window_query daily g start_date target_date of
        (days_count, row) \<Rightarrow>
          if min_days_required \<le> int days_count
          then row # weekly_loop daily start_date target_date min_days_required rest
          else weekly_loop daily start_date target_date min_days_required rest)"

definition weekly_data :: "daily_row list \<Rightarrow> pydate \<Rightarrow> pydate \<Rightarrow> int \<Rightarrow> weekly_tuple list" where
  \<comment> \<open>The list \<open>weekly_data\<close> at line 157.\<close>
  "weekly_data daily start_date target_date min_days_required =
     weekly_loop daily start_date target_date min_days_required
       (grid_points_in_window daily start_date target_date)"









subsection \<open>What the specification says of an aggregate\<close>

text \<open>
  The daily records of a cell in the window that ends on a date; the number of the
  seven days of the window for which the cell has a record with a temperature; the
  arithmetic mean and the sum of the non-null values of a field.
\<close>

definition spec_window_records :: "daily_row list \<Rightarrow> string \<Rightarrow> pydate \<Rightarrow> daily_row list" where
  "spec_window_records daily g end_date =
     filter (\<lambda>r. cd_geohash r = g \<and> end_date - 6 \<le> cd_date r \<and> cd_date r \<le> end_date) daily"


definition spec_mean :: "(daily_row \<Rightarrow> real option) \<Rightarrow> daily_row list \<Rightarrow> real option" where
  "spec_mean fld rows =
     (let known = filter (\<lambda>r. fld r \<noteq> None) rows in
      if known = [] then None
      else Some (sum_list (map (\<lambda>r. the (fld r)) known) / real (length known)))"

definition spec_total :: "(daily_row \<Rightarrow> real option) \<Rightarrow> daily_row list \<Rightarrow> real option" where
  "spec_total fld rows =
     (let known = filter (\<lambda>r. fld r \<noteq> None) rows in
      if known = [] then None else Some (sum_list (map (\<lambda>r. the (fld r)) known)))"

subsection \<open>Example table\<close>

text \<open>
  Two cells and the window that ends on day 104. The first cell has three days with a
  temperature, whose minima 1, 1 and 2 have the mean 4/3, and a fourth day without
  temperature but with 5 mm of rain; the second cell has two days with a temperature.
\<close>

definition daily_record :: "string \<Rightarrow> pydate \<Rightarrow> real option \<Rightarrow> real option \<Rightarrow> daily_row" where
  "daily_record g d t_min r =
     \<lparr>cd_geohash = g, cd_date = d, cd_tmin = t_min, cd_tmax = Some 20, cd_radiation = Some 15,
      cd_rain = r, cd_rh = Some 50, cd_wind = Some 2, cd_et0 = Some 3\<rparr>"

definition agg_daily :: "daily_row list" where
  "agg_daily =
     [daily_record ''abc1234'' 100 (Some 1) (Some 1),
      daily_record ''abc1234'' 101 (Some 1) (Some 2),
      daily_record ''abc1234'' 102 (Some 2) None,
      daily_record ''abc1234'' 103 None (Some 5),
      daily_record ''xyz0000'' 100 (Some 7) (Some 0),
      daily_record ''xyz0000'' 104 (Some 9) (Some 0)]"

definition tuple_abc :: weekly_tuple where
  "tuple_abc = (''abc1234'', 98, 104, Some (133 / 100), Some 20, Some 15, Some 3, Some 50,
                Some 2, Some 3)"


section \<open>Properties of the ET0 engine\<close>


lemma OVERFLOW_THRESHOLD_ge: "10 ^ 308 \<le> OVERFLOW_THRESHOLD"
  unfolding OVERFLOW_THRESHOLD_def by simp

lemma OVERFLOW_THRESHOLD_le: "OVERFLOW_THRESHOLD \<le> 2 * 10 ^ 308"
  unfolding OVERFLOW_THRESHOLD_def by simp

lemma fl_Fin: "\<bar>x\<bar> \<le> 10 ^ 300 \<Longrightarrow> fl x = Fin x"
proof -
  assume a: "\<bar>x\<bar> \<le> 10 ^ 300"
  have "(10::real) ^ 300 < 10 ^ 308" by simp
  with a OVERFLOW_THRESHOLD_ge have "\<bar>x\<bar> < OVERFLOW_THRESHOLD" by linarith
  then show ?thesis unfolding fl_def by auto
qed

lemma fl_PosInf: "2 * 10 ^ 308 \<le> x \<Longrightarrow> fl x = PosInf"
  using OVERFLOW_THRESHOLD_le unfolding fl_def by auto

lemma fadd_NaN [simp]: "fadd NaN b = NaN" "fadd a NaN = NaN"
  by (cases a; simp)+

lemma fmul_NaN [simp]: "fmul NaN b = NaN" "fmul a NaN = NaN"
  by (cases a; simp)+

lemma powr_unit_bound:
  assumes "0 \<le> (b::real)" "b \<le> 1"
  shows "b powr 5.26 \<le> 1"
  using assms powr_mono2 [of "5.26" b 1] by simp

lemma psychrometric_constant_default:
  "\<exists>g. psychrometric_constant ALTITUDE_DEFAULT = Inr (PyFloat (Fin g)) \<and> 0 \<le> g \<and> g \<le> 1"
proof -
  define b :: real where "b = (293 - 0.0065 * 143) / 293"
  define p where "p = b powr 5.26"
  have b: "0 \<le> b" "b \<le> 1"
    unfolding b_def by simp_all
  have p: "0 \<le> p" "p \<le> 1"
    unfolding p_def using b powr_unit_bound by simp_all
  have base: "fdiv (fsub (Fin 293) (fmul (Fin 0.0065) (Fin 143))) (Fin 293) = Inr (Fin b)"
    unfolding b_def fsub_def by (simp add: fl_Fin)
  have big: "(1::real) < 10 ^ 308"
    by simp
  have "\<bar>b\<bar> = b"
    using b by simp
  with p big OVERFLOW_THRESHOLD_ge have "\<bar>b\<bar> powr 5.26 < OVERFLOW_THRESHOLD"
    unfolding p_def by linarith
  then have pw: "float_pow (Fin b) 5.26 = Inr (PyFloat (Fin p))"
    using b unfolding p_def by simp
  have m1: "fmul (Fin 101.3) (Fin p) = Fin (101.3 * p)"
    using p by (simp add: fl_Fin)
  have m2: "fmul (Fin 0.000665) (Fin (101.3 * p)) = Fin (0.000665 * (101.3 * p))"
    using p by (simp add: fl_Fin)
  have "psychrometric_constant ALTITUDE_DEFAULT = Inr (PyFloat (Fin (0.000665 * (101.3 * p))))"
    unfolding psychrometric_constant_def ALTITUDE_DEFAULT_def
    by (simp only: base pw m1 m2 then_do_def sum.case pynum.case)
  moreover have "0 \<le> 0.000665 * (101.3 * p)" "0.000665 * (101.3 * p) \<le> 1"
    using p by simp_all
  ultimately show ?thesis by blast
qed

lemma round_half_even_nonneg: "0 \<le> y \<Longrightarrow> 0 \<le> round_half_even y"
  unfolding round_half_even_def Let_def by (auto simp: zero_le_floor)

lemma round2_nonneg: "0 \<le> x \<Longrightarrow> 0 \<le> round2 x"
  unfolding round2_def by (simp add: round_half_even_nonneg)

lemma round2_grid: "\<exists>k::int. round2 x = of_int k / 100"
  unfolding round2_def by blast

lemma py_round2_max_zero_range:
  "py_round2 (max_zero e) = NaN \<or> py_round2 (max_zero e) = PosInf
   \<or> (\<exists>x. py_round2 (max_zero e) = Fin x \<and> 0 \<le> x \<and> (\<exists>k::int. x = of_int k / 100))"
proof (cases e)
  case (Fin y)
  show ?thesis
  proof (cases "y < 0")
    case True
    with Fin have "py_round2 (max_zero e) = Fin (round2 0)"
      by (simp add: max_zero_def)
    with round2_nonneg [of 0] round2_grid [of 0] show ?thesis
      by simp
  next
    case False
    with Fin have "py_round2 (max_zero e) = Fin (round2 y)"
      by (simp add: max_zero_def)
    with False round2_nonneg [of y] round2_grid [of y] show ?thesis
      by simp
  qed
next
  case NegInf
  then have "py_round2 (max_zero e) = Fin (round2 0)"
    by (simp add: max_zero_def)
  with round2_nonneg [of 0] round2_grid [of 0] show ?thesis
    by simp
qed (simp_all add: max_zero_def)

lemma penman_monteith_range:
  assumes "penman_monteith tmean es ea delta gamma Rn wnd = Inr v"
  shows "v = NaN \<or> v = PosInf \<or> (\<exists>x. v = Fin x \<and> 0 \<le> x \<and> (\<exists>k::int. x = of_int k / 100))"
proof -
  from assms obtain e where v: "v = py_round2 (max_zero e)"
    unfolding penman_monteith_def Let_def then_do_def
    by (auto split: option.splits pynum.splits sum.splits)
  show ?thesis
    unfolding v by (rule py_round2_max_zero_range)
qed

lemma compute_et0_missing:
  assumes "tn = None \<or> tx = None \<or> rad = None \<or> hum = None \<or> wnd = None
           \<or> (\<exists>r. rad = Some r \<and> lt_zero r)"
  shows "compute_et0 tn tx rad hum wnd alt = Inr None"
  using assms unfolding compute_et0_def
  by (auto split: option.splits)

lemma compute_et0_range:
  assumes "compute_et0 tn tx rad hum wnd alt = Inr (Some v)"
  shows "v = NaN \<or> v = PosInf \<or> (\<exists>x. v = Fin x \<and> 0 \<le> x \<and> (\<exists>k::int. x = of_int k / 100))"
proof -
  from assms obtain tmean es ea delta gamma Rn w
    where "penman_monteith tmean es ea delta gamma Rn w = Inr v"
    unfolding compute_et0_def Let_def then_do_def
    by (auto split: option.splits if_splits sum.splits)
  then show ?thesis
    by (rule penman_monteith_range)
qed

text \<open>
  An ordinary day: with both temperatures at 0, radiation 10, relative humidity 50
  and wind 2 at sea level, the result is 2.01.
\<close>

lemma compute_et0_example:
  "compute_et0 (Some (Fin 0)) (Some (Fin 0)) (Some (Fin 10)) (Some (Fin 50)) (Some (Fin 2)) (Fin 0)
     = Inr (Some (Fin (201 / 100)))"
  by (simp add: compute_et0_def saturation_vapor_pressure_def delta_svp_def
      psychrometric_constant_def penman_monteith_def Let_def then_do_def fsub_def
      max_zero_def round2_def round_half_even_def power2_eq_square fl_def OVERFLOW_THRESHOLD_def)

text \<open>
  Claim C1. \<open>compute_et0\<close> is to return \<open>None\<close> when an input is missing or the
  radiation is negative, and otherwise only numbers that are non-negative and rounded
  to two decimals. The first part holds (\<open>compute_et0_missing\<close>), and every value
  returned is not-a-number, the positive infinity, or a non-negative multiple of 0.01
  (\<open>compute_et0_range\<close>). The second part fails: with the temperatures
  tmin = tmax = 1e308 (radiation 10, humidity 50, wind 2, default altitude) the sum of
  the temperatures overflows to infinity, the saturation vapour pressure is
  not-a-number, no exception is raised, \<open>max(et0, 0)\<close> and \<open>round\<close> let
  not-a-number through, and \<open>compute_et0\<close> returns it: a value that is neither
  \<open>None\<close> nor a non-negative number with two decimals.
\<close>

theorem compute_et0_returns_nan:
  "compute_et0 (Some (Fin (10 ^ 308))) (Some (Fin (10 ^ 308))) (Some (Fin 10)) (Some (Fin 50))
     (Some (Fin 2)) ALTITUDE_DEFAULT = Inr (Some NaN)"
proof -
  define big :: real where "big = 10 ^ 308"
  obtain g where g: "psychrometric_constant ALTITUDE_DEFAULT = Inr (PyFloat (Fin g))"
    using psychrometric_constant_default by blast
  have "fl (big + big) = PosInf"
    unfolding big_def by (rule fl_PosInf) simp
  then have tmean: "fdiv (fadd (Fin big) (Fin big)) (Fin 2) = Inr PosInf"
    by (simp add: signed_inf_def)
  have es: "saturation_vapor_pressure (Some PosInf) = Inr (Some NaN)"
    by (simp add: saturation_vapor_pressure_def then_do_def signed_inf_def)
  have delta: "delta_svp (Some PosInf) = Inr (Some NaN)"
    by (simp add: delta_svp_def es then_do_def)
  have rh: "fdiv (Fin 50) (Fin 100) = Inr (Fin (1 / 2))"
    by (simp add: fl_Fin)
  have pm: "penman_monteith PosInf NaN (fmul NaN (Fin (1 / 2))) (Some NaN) (PyFloat (Fin g))
      (Fin 10) (Fin 2) = Inr NaN"
    by (simp add: penman_monteith_def then_do_def fsub_def max_zero_def Let_def)
  have "compute_et0 (Some (Fin big)) (Some (Fin big)) (Some (Fin 10)) (Some (Fin 50))
     (Some (Fin 2)) ALTITUDE_DEFAULT = Inr (Some NaN)"
    unfolding compute_et0_def
    by (simp add: tmean es delta rh g pm then_do_def del: fadd.simps fdiv.simps fmul.simps)
  then show ?thesis
    unfolding big_def .
qed

text \<open>
  Claim C3. The saturation vapour pressure and its slope are computed before the
  \<open>try\<close> block, so a fault raised there is not caught. At tmin = tmax = -237.3 the
  mean temperature is -237.3, the divisor \<open>T + 237.3\<close> is zero, and the
  ZeroDivisionError leaves \<open>compute_et0\<close>, although all five inputs are known and the
  radiation is not negative.
\<close>

theorem compute_et0_propagates_zero_division:
  "compute_et0 (Some (Fin (- 237.3))) (Some (Fin (- 237.3))) (Some (Fin 0)) (Some (Fin 50))
     (Some (Fin 2)) ALTITUDE_DEFAULT = Inl ZeroDivisionError"
  by (simp add: compute_et0_def saturation_vapor_pressure_def then_do_def fl_Fin)

section \<open>Properties of the weather fetcher\<close>

lemmas fetch_defs = fetch_data_def parameter_of_def then_do_def day_record_def field_def NO_DATA_def

lemma fetch_payload_ok:
  "fetch_data (Body (Some payload_ok)) =
     Inr [[(''date'', JStr ''20240501''), (''tmin'', JNum 12), (''tmax'', JNum 22),
           (''radiation'', JNull), (''rain'', JNum 0), (''rh'', JNum 50), (''wind'', JNum 2)],
          [(''date'', JStr ''20240502''), (''tmin'', JNull), (''tmax'', JNum 21),
           (''radiation'', JNum 18), (''rain'', JNum 3), (''rh'', JNum 60), (''wind'', JNull)]]"
  by (simp add: fetch_defs payload_ok_def)

lemma field_not_sentinel: "field data param k = Inr v \<Longrightarrow> v \<noteq> NO_DATA"
  unfolding field_def then_do_def
  by (auto split: sum.splits if_splits simp: NO_DATA_def)

lemma field_source:
  "field data param k = Inr v \<Longrightarrow>
     \<exists>series v0. py_getitem data param = Inr series \<and> py_get series k JNull = Inr v0
        \<and> v = (if v0 = NO_DATA then JNull else v0)"
  unfolding field_def then_do_def
  by (auto split: sum.splits if_splits)

lemma day_record_fields:
  assumes "day_record data k = Inr r"
  shows "\<exists>tmin tmax radiation rain rh wind.
           r = [(''date'', JStr k), (''tmin'', tmin), (''tmax'', tmax),
                (''radiation'', radiation), (''rain'', rain), (''rh'', rh), (''wind'', wind)]
           \<and> field data ''T2M_MIN'' k = Inr tmin
           \<and> field data ''T2M_MAX'' k = Inr tmax
           \<and> field data ''ALLSKY_SFC_SW_DWN'' k = Inr radiation
           \<and> field data ''PRECTOTCORR'' k = Inr rain
           \<and> field data ''RH2M'' k = Inr rh
           \<and> field data ''WS2M'' k = Inr wind"
  using assms unfolding day_record_def then_do_def
  by (auto split: sum.splits)

lemma day_records_member:
  "day_records data ks = Inr rs \<Longrightarrow> r \<in> set rs \<Longrightarrow> \<exists>k \<in> set ks. day_record data k = Inr r"
proof (induction ks arbitrary: rs)
  case Nil
  then show ?case by simp
next
  case (Cons k ks)
  then show ?case
    by (auto simp: then_do_def split: sum.splits)
qed

lemma fetch_data_member:
  assumes "fetch_data response = Inr results" "r \<in> set results"
  shows "\<exists>payload data k. response = Body (Some payload) \<and> parameter_of payload = Inr data
           \<and> day_record data k = Inr r"
proof -
  from assms obtain payload data ks
    where "response = Body (Some payload)" "parameter_of payload = Inr data"
      "day_records data ks = Inr results"
    unfolding fetch_data_def then_do_def
    by (auto split: http_response.splits option.splits sum.splits if_splits)
  with assms(2) day_records_member [of data ks results r] show ?thesis
    by blast
qed

text \<open>
  Claim C8. In every record that \<open>fetch_data\<close> returns, every field is the source's
  value for that parameter and date with the no-data sentinel -999 replaced by
  \<open>None\<close>, so no field of any record is the sentinel.
\<close>

theorem fetch_data_normalises_sentinel:
  assumes "fetch_data response = Inr results" and "r \<in> set results"
  shows "(\<forall>(name, v) \<in> set r. v \<noteq> JNum (- 999))
       \<and> (\<exists>payload data date_key.
             response = Body (Some payload) \<and> parameter_of payload = Inr data
           \<and> map_of r ''date'' = Some (JStr date_key)
           \<and> (\<forall>(name, param) \<in> set FIELDS.
                 \<exists>series v0. py_getitem data param = Inr series
                   \<and> py_get series date_key JNull = Inr v0
                   \<and> map_of r name = Some (if v0 = JNum (- 999) then JNull else v0)))"
proof -
  from fetch_data_member [OF assms] obtain payload data k
    where resp: "response = Body (Some payload)" and par: "parameter_of payload = Inr data"
      and rec: "day_record data k = Inr r"
    by blast
  from day_record_fields [OF rec] obtain tmin tmax radiation rain rh wind
    where r: "r = [(''date'', JStr k), (''tmin'', tmin), (''tmax'', tmax),
                (''radiation'', radiation), (''rain'', rain), (''rh'', rh), (''wind'', wind)]"
      and f1: "field data ''T2M_MIN'' k = Inr tmin"
      and f2: "field data ''T2M_MAX'' k = Inr tmax"
      and f3: "field data ''ALLSKY_SFC_SW_DWN'' k = Inr radiation"
      and f4: "field data ''PRECTOTCORR'' k = Inr rain"
      and f5: "field data ''RH2M'' k = Inr rh"
      and f6: "field data ''WS2M'' k = Inr wind"
    by blast
  have clean: "\<forall>(name, v) \<in> set r. v \<noteq> JNum (- 999)"
    using field_not_sentinel [OF f1] field_not_sentinel [OF f2] field_not_sentinel [OF f3]
      field_not_sentinel [OF f4] field_not_sentinel [OF f5] field_not_sentinel [OF f6]
    by (simp add: r NO_DATA_def)
  have src: "\<forall>(name, param) \<in> set FIELDS.
                 \<exists>series v0. py_getitem data param = Inr series
                   \<and> py_get series k JNull = Inr v0
                   \<and> map_of r name = Some (if v0 = JNum (- 999) then JNull else v0)"
    using field_source [OF f1] field_source [OF f2] field_source [OF f3]
      field_source [OF f4] field_source [OF f5] field_source [OF f6]
    by (simp add: r FIELDS_def NO_DATA_def)
  have "map_of r ''date'' = Some (JStr k)"
    by (simp add: r)
  with resp par src clean show ?thesis
    by blast
qed

theorem fetch_data_normalises_sentinel_witness:
  "fetch_data (Body (Some payload_ok)) =
     Inr [[(''date'', JStr ''20240501''), (''tmin'', JNum 12), (''tmax'', JNum 22),
           (''radiation'', JNull), (''rain'', JNum 0), (''rh'', JNum 50), (''wind'', JNum 2)],
          [(''date'', JStr ''20240502''), (''tmin'', JNull), (''tmax'', JNum 21),
           (''radiation'', JNum 18), (''rain'', JNum 3), (''rh'', JNum 60), (''wind'', JNull)]]
   \<and> JNum (- 999) \<notin> snd ` set [(''date'', JStr ''20240502''), (''tmin'', JNull), (''tmax'', JNum 21),
           (''radiation'', JNum 18), (''rain'', JNum 3), (''rh'', JNum 60), (''wind'', JNull)]"
  using fetch_data_normalises_sentinel [OF fetch_payload_ok,
      of "[(''date'', JStr ''20240502''), (''tmin'', JNull), (''tmax'', JNum 21),
           (''radiation'', JNum 18), (''rain'', JNum 3), (''rh'', JNum 60), (''wind'', JNull)]"]
    fetch_payload_ok
  by simp

lemma fetch_request_failed: "fetch_data RequestFailed = Inr []"
  by (simp add: fetch_data_def)

lemma fetch_not_json: "fetch_data (Body None) = Inl JSONDecodeError"
  by (simp add: fetch_data_def)

lemma fetch_no_tmax: "fetch_data (Body (Some payload_no_tmax)) = Inl KeyError"
  by (simp add: fetch_defs payload_no_tmax_def)

text \<open>
  Claim C9. A request failure yields an empty series and the batch goes on (third
  conjunct), but a malformed payload is not isolated: a body that is not JSON raises
  at \<open>response.json()\<close>, and a payload with T2M\_MIN but without T2M\_MAX raises
  KeyError in the loop, both after the \<open>try\<close> block of \<open>fetch_data\<close>; the batch
  loop has no handler, so the exception ends the batch and the data of the other cell
  is not returned.
\<close>

theorem main_loop_aborts_on_malformed_payload:
  "main_loop [(cell_a, Body None), (cell_b, Body (Some payload_ok))] = Inl JSONDecodeError
   \<and> main_loop [(cell_a, Body (Some payload_no_tmax)), (cell_b, Body (Some payload_ok))]
       = Inl KeyError
   \<and> main_loop [(cell_a, RequestFailed), (cell_b, Body (Some payload_ok))]
       = Inr [(cell_b,
           [[(''date'', JStr ''20240501''), (''tmin'', JNum 12), (''tmax'', JNum 22),
             (''radiation'', JNull), (''rain'', JNum 0), (''rh'', JNum 50), (''wind'', JNum 2)],
            [(''date'', JStr ''20240502''), (''tmin'', JNull), (''tmax'', JNum 21),
             (''radiation'', JNum 18), (''rain'', JNum 3), (''rh'', JNum 60),
             (''wind'', JNull)]])]"
  by (simp add: fetch_payload_ok fetch_not_json fetch_no_tmax fetch_request_failed
      print_sample_def then_do_def)

section \<open>Properties of the grid upsert\<close>

lemma unique_grid_loop_origin:
  "unique_grid_loop rs acc = Inr out \<Longrightarrow> t \<in> set out \<Longrightarrow>
     t \<in> set acc \<or>
     (\<exists>r \<in> set rs. is_truthy_str (geohash r) \<and> is_truthy_num (latitude r)
        \<and> is_truthy_num (longitude r)
        \<and> fst t = the (geohash r) \<and> fst (snd t) = the (latitude r)
        \<and> fst (snd (snd t)) = the (longitude r))"
proof (induction rs arbitrary: acc)
  case Nil
  then show ?case by simp
next
  case (Cons r rs)
  show ?case
  proof (cases "is_truthy_str (geohash r) \<and> is_truthy_num (latitude r)
      \<and> is_truthy_num (longitude r) \<and> the (geohash r) \<notin> fst ` set acc")
    case True
    with Cons.prems obtain geom where
      run: "unique_grid_loop rs
              (acc @ [(the (geohash r), the (latitude r), the (longitude r), geom)]) = Inr out"
      by (auto simp: then_do_def split: sum.splits)
    from Cons.IH [OF run Cons.prems(2)] True show ?thesis
      by auto
  next
    case False
    with Cons.prems have "unique_grid_loop rs acc = Inr out"
      by (auto split: if_splits)
    from Cons.IH [OF this Cons.prems(2)] show ?thesis
      by auto
  qed
qed

lemma unique_grid_loop_skip:
  "\<not> (is_truthy_str (geohash e) \<and> is_truthy_num (latitude e) \<and> is_truthy_num (longitude e))
   \<Longrightarrow> unique_grid_loop (xs @ e # ys) acc = unique_grid_loop (xs @ ys) acc"
  by (induction xs arbitrary: acc) (auto simp: then_do_def split: sum.splits)

lemma upsert_grid_row_set:
  "row \<in> set (upsert_grid_row now dflt tbl t) \<Longrightarrow>
     row \<in> set tbl \<or>
     (g_geohash row = fst t \<and> g_lat row = fst (snd t) \<and> g_lon row = fst (snd (snd t)))"
  unfolding upsert_grid_row_def
  by (auto split: prod.splits if_splits)

lemma foldl_upsert_grid_set:
  "row \<in> set (foldl (upsert_grid_row now dflt) tbl ts) \<Longrightarrow>
     row \<in> set tbl \<or>
     (\<exists>t \<in> set ts. g_geohash row = fst t \<and> g_lat row = fst (snd t)
        \<and> g_lon row = fst (snd (snd t)))"
proof (induction ts arbitrary: tbl)
  case Nil
  then show ?case by simp
next
  case (Cons t ts)
  from Cons.IH [of "upsert_grid_row now dflt tbl t"] Cons.prems
  have "row \<in> set (upsert_grid_row now dflt tbl t) \<or>
     (\<exists>t \<in> set ts. g_geohash row = fst t \<and> g_lat row = fst (snd t)
        \<and> g_lon row = fst (snd (snd t)))"
    by simp
  with upsert_grid_row_set [of row now dflt tbl t] show ?case
    by auto
qed

lemma truthy_num_zero: "\<not> is_truthy_num (Some 0)"
  by (simp add: is_truthy_num_def)

lemma truthy_str_Some: "is_truthy_str s \<Longrightarrow> s = Some (the s) \<and> the s \<noteq> []"
  by (cases s) (auto simp: is_truthy_str_def)

lemma truthy_num_Some: "is_truthy_num x \<Longrightarrow> x = Some (the x) \<and> the x \<noteq> 0"
  by (cases x) (auto simp: is_truthy_num_def)

text \<open>
  Claim C10. A grid row is written only for an entry whose geohash, latitude and
  longitude are all truthy: every row of the table after \<open>ingest_grid_points\<close> was
  in the table before, or carries the non-empty geohash and the non-zero latitude and
  longitude of an entry of the input. An entry whose latitude or longitude is exactly
  0 is skipped: the call does the same with or without it, whatever its geohash and
  its other coordinate are.
\<close>

theorem ingest_grid_points_requires_truthy:
  "(ingest_grid_points now dflt tbl results = Inr (tbl', n) \<longrightarrow>
      (\<forall>row \<in> set tbl'. row \<in> set tbl \<or>
         (\<exists>r \<in> set results.
             geohash r = Some (g_geohash row) \<and> g_geohash row \<noteq> []
           \<and> latitude r = Some (g_lat row) \<and> g_lat row \<noteq> 0
           \<and> longitude r = Some (g_lon row) \<and> g_lon row \<noteq> 0)))
   \<and> (latitude e = Some 0 \<or> longitude e = Some 0 \<longrightarrow>
        ingest_grid_points now dflt tbl (xs @ e # ys) = ingest_grid_points now dflt tbl (xs @ ys))"
proof (intro conjI impI ballI)
  fix row
  assume run: "ingest_grid_points now dflt tbl results = Inr (tbl', n)" and row: "row \<in> set tbl'"
  from run obtain grid_data where
    loop: "unique_grid_loop results [] = Inr grid_data" and
    tbl': "tbl' = foldl (upsert_grid_row now dflt) tbl grid_data"
    unfolding ingest_grid_points_def then_do_def by (auto split: sum.splits)
  from foldl_upsert_grid_set [of row now dflt tbl grid_data] row tbl'
  consider "row \<in> set tbl"
    | t where "t \<in> set grid_data"
        "g_geohash row = fst t \<and> g_lat row = fst (snd t) \<and> g_lon row = fst (snd (snd t))"
    by blast
  then show "row \<in> set tbl \<or>
         (\<exists>r \<in> set results.
             geohash r = Some (g_geohash row) \<and> g_geohash row \<noteq> []
           \<and> latitude r = Some (g_lat row) \<and> g_lat row \<noteq> 0
           \<and> longitude r = Some (g_lon row) \<and> g_lon row \<noteq> 0)"
  proof cases
    case 1
    then show ?thesis by simp
  next
    case 2
    from unique_grid_loop_origin [OF loop 2(1)] obtain r where
      r: "r \<in> set results" "is_truthy_str (geohash r)" "is_truthy_num (latitude r)"
        "is_truthy_num (longitude r)" "fst t = the (geohash r)"
        "fst (snd t) = the (latitude r)" "fst (snd (snd t)) = the (longitude r)"
      by auto
    from truthy_str_Some [OF r(2)] truthy_num_Some [OF r(3)] truthy_num_Some [OF r(4)] r 2(2)
    have "geohash r = Some (g_geohash row) \<and> g_geohash row \<noteq> []
           \<and> latitude r = Some (g_lat row) \<and> g_lat row \<noteq> 0
           \<and> longitude r = Some (g_lon row) \<and> g_lon row \<noteq> 0"
      by simp
    with r(1) show ?thesis by blast
  qed
next
  assume "latitude e = Some 0 \<or> longitude e = Some 0"
  then have "\<not> (is_truthy_str (geohash e) \<and> is_truthy_num (latitude e)
      \<and> is_truthy_num (longitude e))"
    using truthy_num_zero by auto
  from unique_grid_loop_skip [OF this]
  show "ingest_grid_points now dflt tbl (xs @ e # ys) = ingest_grid_points now dflt tbl (xs @ ys)"
    unfolding ingest_grid_points_def by simp
qed

lemma ingest_grid_example:
  "ingest_grid_points (9::nat) 7 [] [entry_meridian, entry_abc] = Inr ([row_abc], 1)"
  by (simp add: ingest_grid_points_def entry_meridian_def entry_abc_def row_abc_def
      is_truthy_str_def is_truthy_num_def then_do_def polygon_of_def upsert_grid_row_def)

theorem ingest_grid_points_requires_truthy_witness:
  "ingest_grid_points (9::nat) 7 [] [entry_meridian, entry_abc] = Inr ([row_abc], 1)
   \<and> geohash entry_abc = Some (g_geohash row_abc) \<and> g_geohash row_abc \<noteq> []
   \<and> latitude entry_abc = Some (g_lat row_abc) \<and> g_lat row_abc \<noteq> 0
   \<and> longitude entry_abc = Some (g_lon row_abc) \<and> g_lon row_abc \<noteq> 0
   \<and> longitude entry_meridian = Some 0
   \<and> ingest_grid_points (9::nat) 7 [] ([] @ entry_meridian # [entry_abc])
       = ingest_grid_points 9 7 [] ([] @ [entry_abc])"
proof -
  have z: "longitude entry_meridian = Some 0"
    by (simp add: entry_meridian_def)
  from ingest_grid_points_requires_truthy
         [of "9::nat" 7 "[]" "[entry_meridian, entry_abc]" "[row_abc]" 1 entry_meridian
             "[]" "[entry_abc]"]
    ingest_grid_example z
  have "ingest_grid_points (9::nat) 7 [] ([] @ entry_meridian # [entry_abc])
       = ingest_grid_points 9 7 [] ([] @ [entry_abc])"
    by blast
  with ingest_grid_example z show ?thesis
    by (simp add: entry_abc_def row_abc_def)
qed

section \<open>Properties of the daily ingestion\<close>

lemma cd_key_row_of: "cd_key (row_of g t) = (g, fst (snd t))"
  by (simp add: cd_key_def row_of_def split: prod.splits)

lemma insert_do_nothing_Inr:
  "insert_do_nothing tbl t = Inr tbl' \<Longrightarrow>
     \<exists>g. fst t = Some g \<and>
       tbl' = (if (g, fst (snd t)) \<in> cd_key ` set tbl then tbl else tbl @ [row_of g t])"
  unfolding insert_do_nothing_def by (auto split: option.splits if_splits)

lemma execute_values_append:
  "execute_values_do_nothing tbl (xs @ ys) =
     then_do (execute_values_do_nothing tbl xs) (\<lambda>tbl'. execute_values_do_nothing tbl' ys)"
  by (induction xs arbitrary: tbl) (auto simp: then_do_def split: sum.splits)

lemma execute_values_extends:
  "execute_values_do_nothing tbl ts = Inr tbl' \<Longrightarrow>
     \<exists>new. tbl' = tbl @ new \<and> (\<forall>r \<in> set new. cd_key r \<notin> cd_key ` set tbl)"
proof (induction ts arbitrary: tbl)
  case Nil
  then show ?case by simp
next
  case (Cons t ts)
  from Cons.prems obtain mid where
    step: "insert_do_nothing tbl t = Inr mid" and
    rest: "execute_values_do_nothing mid ts = Inr tbl'"
    by (auto simp: then_do_def split: sum.splits)
  from Cons.IH [OF rest] obtain new where
    new: "tbl' = mid @ new" "\<forall>r \<in> set new. cd_key r \<notin> cd_key ` set mid"
    by blast
  from insert_do_nothing_Inr [OF step] obtain g where
    g: "fst t = Some g"
      "mid = (if (g, fst (snd t)) \<in> cd_key ` set tbl then tbl else tbl @ [row_of g t])"
    by blast
  show ?case
  proof (cases "(g, fst (snd t)) \<in> cd_key ` set tbl")
    case True
    with g new show ?thesis by auto
  next
    case False
    with g have mid: "mid = tbl @ [row_of g t]" by simp
    have "tbl' = tbl @ (row_of g t # new)"
      using new(1) mid by simp
    moreover have "\<forall>r \<in> set (row_of g t # new). cd_key r \<notin> cd_key ` set tbl"
      using new(2) mid False by (auto simp: cd_key_row_of)
    ultimately show ?thesis by blast
  qed
qed

lemma execute_values_distinct:
  "execute_values_do_nothing tbl ts = Inr tbl' \<Longrightarrow> distinct (map cd_key tbl)
     \<Longrightarrow> distinct (map cd_key tbl')"
proof (induction ts arbitrary: tbl)
  case Nil
  then show ?case by simp
next
  case (Cons t ts)
  from Cons.prems(1) obtain mid where
    step: "insert_do_nothing tbl t = Inr mid" and
    rest: "execute_values_do_nothing mid ts = Inr tbl'"
    by (auto simp: then_do_def split: sum.splits)
  from insert_do_nothing_Inr [OF step] Cons.prems(2) have "distinct (map cd_key mid)"
    by (auto simp: cd_key_row_of split: if_splits)
  from Cons.IH [OF rest this] show ?case .
qed

lemma execute_values_keys:
  "execute_values_do_nothing tbl ts = Inr tbl' \<Longrightarrow>
     cd_key ` set tbl' = cd_key ` set tbl \<union> {(g, d). (Some g, d) \<in> key_of ` set ts}
     \<and> (\<forall>t \<in> set ts. fst t \<noteq> None)"
proof (induction ts arbitrary: tbl)
  case Nil
  then show ?case by simp
next
  case (Cons t ts)
  from Cons.prems(1) obtain mid where
    step: "insert_do_nothing tbl t = Inr mid" and
    rest: "execute_values_do_nothing mid ts = Inr tbl'"
    by (auto simp: then_do_def split: sum.splits)
  from insert_do_nothing_Inr [OF step] obtain g where
    g: "fst t = Some g"
      "mid = (if (g, fst (snd t)) \<in> cd_key ` set tbl then tbl else tbl @ [row_of g t])"
    by blast
  then have mid: "cd_key ` set mid = insert (g, fst (snd t)) (cd_key ` set tbl)"
    by (auto simp: cd_key_row_of)
  have kt: "key_of t = (Some g, fst (snd t))"
    using g(1) by (simp add: key_of_def)
  from Cons.IH [OF rest] have
    ih: "cd_key ` set tbl' = cd_key ` set mid \<union> {(g, d). (Some g, d) \<in> key_of ` set ts}"
      "\<forall>t \<in> set ts. fst t \<noteq> None"
    by blast+
  have "cd_key ` set tbl' =
      cd_key ` set tbl \<union> {(g, d). (Some g, d) \<in> key_of ` set (t # ts)}"
    unfolding ih(1) mid using kt by auto
  with ih(2) g(1) show ?case by simp
qed



lemma concat_chunks: "concat (chunks n xs) = xs"
  by (induction n xs rule: chunks.induct) simp_all

lemma insert_batches_concat:
  "insert_batches tbl tot bs =
     then_do (execute_values_do_nothing tbl (concat bs))
       (\<lambda>tbl'. Inr (tbl', tot + length (concat bs)))"
proof (induction bs arbitrary: tbl tot)
  case Nil
  then show ?case by (simp add: then_do_def)
next
  case (Cons b bs)
  show ?case
    by (simp add: execute_values_append Cons.IH then_do_def add.assoc split: sum.splits)
qed

lemma ingest_climate_daily_eq:
  "ingest_climate_daily tbl results =
     then_do (build_daily_data results) (\<lambda>daily_data.
     then_do (execute_values_do_nothing tbl (unique_data_loop daily_data []))
       (\<lambda>tbl'. Inr (tbl', length (unique_data_loop daily_data []))))"
  unfolding ingest_climate_daily_def Let_def
  by (auto simp: then_do_def insert_batches_concat concat_chunks split: sum.splits)

lemma unique_data_loop_filter:
  "filter (\<lambda>u. key_of u = k) (unique_data_loop xs acc) =
     (if k \<in> key_of ` set acc then filter (\<lambda>u. key_of u = k) acc
      else (case find (\<lambda>u. key_of u = k) xs of None \<Rightarrow> [] | Some f \<Rightarrow> [f]))"
proof (induction xs arbitrary: acc)
  case Nil
  have "filter (\<lambda>u. key_of u = k) acc = []" if "k \<notin> key_of ` set acc"
    using that by (auto simp: filter_empty_conv)
  then show ?case by simp
next
  case (Cons x xs)
  have empty: "filter (\<lambda>u. key_of u = k) acc = []" if "k \<notin> key_of ` set acc"
    using that by (auto simp: filter_empty_conv)
  show ?case
  proof (cases "key_of x \<in> key_of ` set acc")
    case True
    then show ?thesis
      using Cons.IH [of acc] by auto
  next
    case False
    then show ?thesis
      using Cons.IH [of "acc @ [x]"] empty by auto
  qed
qed

lemma unique_data_loop_distinct:
  "distinct (map key_of acc) \<Longrightarrow> distinct (map key_of (unique_data_loop xs acc))"
  by (induction xs arbitrary: acc) auto

lemma unique_data_loop_keys:
  "key_of ` set (unique_data_loop xs acc) = key_of ` set acc \<union> key_of ` set xs"
  by (induction xs arbitrary: acc) auto

lemma find_first_exists:
  "t \<in> set xs \<Longrightarrow> P t \<Longrightarrow> \<exists>f. find P xs = Some f \<and> f \<in> set xs \<and> P f"
  by (induction xs) auto

lemma execute_values_first_wins:
  "execute_values_do_nothing tbl ts = Inr tbl' \<Longrightarrow> t \<in> set ts \<Longrightarrow>
   key_of t = (Some g, d) \<Longrightarrow> (g, d) \<notin> cd_key ` set tbl \<Longrightarrow> distinct (map key_of ts)
   \<Longrightarrow> row_of g t \<in> set tbl'"
proof (induction ts arbitrary: tbl)
  case Nil
  then show ?case by simp
next
  case (Cons u ts)
  from Cons.prems(1) obtain mid where
    step: "insert_do_nothing tbl u = Inr mid" and
    rest: "execute_values_do_nothing mid ts = Inr tbl'"
    by (auto simp: then_do_def split: sum.splits)
  show ?case
  proof (cases "t = u")
    case True
    with Cons.prems(3,4) step have "mid = tbl @ [row_of g t]"
      by (auto simp: insert_do_nothing_def key_of_def split: option.splits if_splits)
    with execute_values_extends [OF rest] show ?thesis
      by auto
  next
    case False
    with Cons.prems(2) have t: "t \<in> set ts" by simp
    with Cons.prems(5) have neq: "key_of u \<noteq> key_of t" by auto
    from insert_do_nothing_Inr [OF step] obtain h where
      h: "fst u = Some h"
        "mid = (if (h, fst (snd u)) \<in> cd_key ` set tbl then tbl else tbl @ [row_of h u])"
      by blast
    have "(g, d) \<notin> cd_key ` set mid"
      using h neq Cons.prems(3,4) by (auto simp: cd_key_row_of key_of_def)
    from Cons.IH [OF rest t Cons.prems(3) this] Cons.prems(5) show ?thesis
      by simp
  qed
qed

lemma distinct_filter_one:
  "distinct (map f xs) \<Longrightarrow> k \<in> f ` set xs \<Longrightarrow> length (filter (\<lambda>r. f r = k) xs) = 1"
proof (induction xs)
  case Nil
  then show ?case by simp
next
  case (Cons x xs)
  show ?case
  proof (cases "f x = k")
    case True
    from Cons.prems(1) have "f x \<notin> f ` set xs" by simp
    with True have "\<forall>r \<in> set xs. f r \<noteq> k" by blast
    then have "filter (\<lambda>r. f r = k) xs = []"
      by (simp add: filter_empty_conv)
    with True show ?thesis by simp
  next
    case False
    with Cons show ?thesis by auto
  qed
qed

lemma build_daily_data_example:
  "build_daily_data [entry_abc] = Inr [tuple_a1, tuple_a2, tuple_b]"
  by (simp add: entry_abc_def day_a1_def day_a2_def day_b_def tuple_a1_def tuple_a2_def
      tuple_b_def then_do_def compute_et0_def)

lemma unique_data_loop_example:
  "unique_data_loop [tuple_a1, tuple_a2, tuple_b] [] = [tuple_a1, tuple_b]"
  by (simp add: tuple_a1_def tuple_a2_def tuple_b_def key_of_def)

lemma ingest_example_empty:
  "ingest_climate_daily [] [entry_abc] =
     Inr ([row_of ''abc1234'' tuple_a1, row_of ''abc1234'' tuple_b], 2)"
  apply (simp only: ingest_climate_daily_eq build_daily_data_example then_do_def sum.case
      unique_data_loop_example)
  apply (simp add: then_do_def insert_do_nothing_def cd_key_row_of tuple_a1_def tuple_b_def)
  done




text \<open>
  Claim C7. When the tuples built from the input hold an entry with the key
  (cell identifier, date), the deduplication keeps exactly the first entry with that
  key in iteration order, so the later ones are discarded before the write; after the
  run that commits exactly one row is stored for the key, and it is the row of that
  first entry when the key was not stored before.
\<close>

theorem ingest_climate_daily_dedup:
  assumes "distinct (map cd_key tbl)"
    and "build_daily_data results = Inr daily_data"
    and "ingest_climate_daily tbl results = Inr (tbl', n)"
    and "t \<in> set daily_data"
    and "key_of t = (Some g, d)"
  shows "\<exists>first. find (\<lambda>u. key_of u = (Some g, d)) daily_data = Some first
           \<and> filter (\<lambda>u. key_of u = (Some g, d)) (unique_data_loop daily_data []) = [first]
           \<and> length (filter (\<lambda>r. cd_key r = (g, d)) tbl') = 1
           \<and> ((g, d) \<notin> cd_key ` set tbl \<longrightarrow> row_of g first \<in> set tbl')"
proof -
  let ?u = "unique_data_loop daily_data []"
  from assms(2,3) have exec: "execute_values_do_nothing tbl ?u = Inr tbl'"
    unfolding ingest_climate_daily_eq then_do_def by (auto split: sum.splits)
  from find_first_exists [of t daily_data "\<lambda>u. key_of u = (Some g, d)"] assms(4,5)
  obtain first where
    first: "find (\<lambda>u. key_of u = (Some g, d)) daily_data = Some first"
      "key_of first = (Some g, d)"
    by blast
  have filt: "filter (\<lambda>u. key_of u = (Some g, d)) ?u = [first]"
    using unique_data_loop_filter [of "(Some g, d)" daily_data "[]"] first(1) by simp
  then have "first \<in> set (filter (\<lambda>u. key_of u = (Some g, d)) ?u)"
    by simp
  then have mem: "first \<in> set ?u"
    by simp
  have "(Some g, d) \<in> key_of ` set ?u"
    using mem first(2) by force
  with execute_values_keys [OF exec] have "(g, d) \<in> cd_key ` set tbl'"
    by auto
  with distinct_filter_one [OF execute_values_distinct [OF exec assms(1)]]
  have one: "length (filter (\<lambda>r. cd_key r = (g, d)) tbl') = 1"
    by blast
  have dist: "distinct (map key_of ?u)"
    by (rule unique_data_loop_distinct) simp
  have "(g, d) \<notin> cd_key ` set tbl \<longrightarrow> row_of g first \<in> set tbl'"
    using execute_values_first_wins [OF exec mem first(2) _ dist] by blast
  with first(1) filt one show ?thesis by blast
qed

theorem ingest_climate_daily_dedup_witness:
  "build_daily_data [entry_abc] = Inr [tuple_a1, tuple_a2, tuple_b]
   \<and> ingest_climate_daily [] [entry_abc]
       = Inr ([row_of ''abc1234'' tuple_a1, row_of ''abc1234'' tuple_b], 2)
   \<and> key_of tuple_a2 = (Some ''abc1234'', ''2024-05-01'')
   \<and> find (\<lambda>u. key_of u = (Some ''abc1234'', ''2024-05-01'')) [tuple_a1, tuple_a2, tuple_b]
       = Some tuple_a1
   \<and> filter (\<lambda>u. key_of u = (Some ''abc1234'', ''2024-05-01''))
         (unique_data_loop [tuple_a1, tuple_a2, tuple_b] []) = [tuple_a1]
   \<and> length (filter (\<lambda>r. cd_key r = (''abc1234'', ''2024-05-01''))
         [row_of ''abc1234'' tuple_a1, row_of ''abc1234'' tuple_b]) = 1
   \<and> row_of ''abc1234'' tuple_a1
       \<in> set [row_of ''abc1234'' tuple_a1, row_of ''abc1234'' tuple_b]"
proof -
  have k: "key_of tuple_a2 = (Some ''abc1234'', ''2024-05-01'')"
    by (simp add: key_of_def tuple_a2_def)
  have f: "find (\<lambda>u. key_of u = (Some ''abc1234'', ''2024-05-01''))
      [tuple_a1, tuple_a2, tuple_b] = Some tuple_a1"
    by (simp add: key_of_def tuple_a1_def)
  have m: "tuple_a2 \<in> set [tuple_a1, tuple_a2, tuple_b]"
    by simp
  have d: "distinct (map cd_key ([] :: (string, pyfloat) climate_daily_row list))"
    by simp
  have fresh: "(''abc1234'', ''2024-05-01'')
      \<notin> cd_key ` set ([] :: (string, pyfloat) climate_daily_row list)"
    by simp
  from ingest_climate_daily_dedup [OF d build_daily_data_example ingest_example_empty m k]
  obtain first where
    a: "find (\<lambda>u. key_of u = (Some ''abc1234'', ''2024-05-01''))
          [tuple_a1, tuple_a2, tuple_b] = Some first"
    and b: "filter (\<lambda>u. key_of u = (Some ''abc1234'', ''2024-05-01''))
          (unique_data_loop [tuple_a1, tuple_a2, tuple_b] []) = [first]"
    and c: "length (filter (\<lambda>r. cd_key r = (''abc1234'', ''2024-05-01''))
          [row_of ''abc1234'' tuple_a1, row_of ''abc1234'' tuple_b]) = 1"
    and e: "(''abc1234'', ''2024-05-01'')
          \<notin> cd_key ` set ([] :: (string, pyfloat) climate_daily_row list)
        \<longrightarrow> row_of ''abc1234'' first
          \<in> set [row_of ''abc1234'' tuple_a1, row_of ''abc1234'' tuple_b]"
    by blast
  from a f have first: "first = tuple_a1"
    by (simp only: option.inject)
  from e fresh have e': "row_of ''abc1234'' first
      \<in> set [row_of ''abc1234'' tuple_a1, row_of ''abc1234'' tuple_b]"
    by (rule mp)
  from build_daily_data_example ingest_example_empty k f b c e' show ?thesis
    unfolding first by (intro conjI)
qed

section \<open>Properties of the rolling aggregator\<close>

lemma window_query_geohash: "fst (snd (window_query daily g s e)) = g"
  by (simp add: window_query_def Let_def)

lemma window_query_count: "fst (window_query daily g s e) = length (window_rows daily g s e)"
  by (simp add: window_query_def Let_def)

lemma weekly_loop_mem:
  "t \<in> set (weekly_loop daily s e m gs) \<longleftrightarrow>
     (\<exists>g \<in> set gs. m \<le> int (length (window_rows daily g s e))
        \<and> t = snd (window_query daily g s e))"
proof (induction gs)
  case Nil
  then show ?case by simp
next
  case (Cons g gs)
  let ?c = "length (window_rows daily g s e)"
  let ?row = "snd (window_query daily g s e)"
  have q: "window_query daily g s e = (?c, ?row)"
    using window_query_count [of daily g s e] by (simp add: prod_eq_iff)
  show ?case
  proof (cases "m \<le> int ?c")
    case True
    have "weekly_loop daily s e m (g # gs) = ?row # weekly_loop daily s e m gs"
      by (subst weekly_loop.simps, subst q) (simp add: True)
    then show ?thesis
      using Cons.IH True by auto
  next
    case False
    have "weekly_loop daily s e m (g # gs) = weekly_loop daily s e m gs"
      by (subst weekly_loop.simps, subst q) (simp add: False)
    then show ?thesis
      using Cons.IH False by auto
  qed
qed



lemma window_rows_spec:
  "window_rows daily g (e - 6) e = filter (\<lambda>r. cd_tmin r \<noteq> None) (spec_window_records daily g e)"
  unfolding window_rows_def spec_window_records_def in_window_def
  by (simp add: conj_commute conj_left_commute cong: conj_cong)

























lemma weekly_data_example:
  "weekly_data agg_daily 98 104 3 = [tuple_abc]"
  by (simp add: weekly_data_def grid_points_in_window_def agg_daily_def daily_record_def
      in_window_def window_query_def window_rows_def Let_def sql_round2_def sql_avg_def
      sql_sum_def non_null_def numeric_round2_def tuple_abc_def)

lemma non_null_map:
  "non_null (map fld rows) = map (\<lambda>r. the (fld r)) (filter (\<lambda>r. fld r \<noteq> None) rows)"
  by (induction rows) (auto simp: non_null_def)

lemma sql_avg_spec_mean: "sql_avg (map fld rows) = spec_mean fld rows"
  by (simp add: sql_avg_def spec_mean_def non_null_map Let_def)

lemma sql_sum_spec_total: "sql_sum (map fld rows) = spec_total fld rows"
  by (simp add: sql_sum_def spec_total_def non_null_map Let_def)

lemma spec_mean_tmin_filter:
  "spec_mean cd_tmin (filter (\<lambda>r. cd_tmin r \<noteq> None) rows) = spec_mean cd_tmin rows"
  by (simp add: spec_mean_def Let_def)

lemma numeric_round2_error: "\<bar>numeric_round2 x - x\<bar> \<le> 1 / 200"
proof -
  define a where "a = \<bar>x\<bar>"
  define k :: real where "k = of_int \<lfloor>a * 100 + 1 / 2\<rfloor>"
  have "k \<le> a * 100 + 1 / 2" "a * 100 + 1 / 2 < k + 1"
    unfolding k_def by linarith+
  then have "k / 100 - a \<le> 1 / 200" "- (1 / 200) \<le> k / 100 - a"
    by linarith+
  then have bound: "\<bar>k / 100 - a\<bar> \<le> 1 / 200"
    by (intro abs_leI) linarith+
  have "numeric_round2 x - x = sgn x * (k / 100 - a)"
    unfolding numeric_round2_def k_def a_def
    by (simp add: algebra_simps sgn_real_def)
  then have "\<bar>numeric_round2 x - x\<bar> = \<bar>sgn x\<bar> * \<bar>k / 100 - a\<bar>"
    by (simp add: abs_mult)
  also have "\<dots> \<le> \<bar>k / 100 - a\<bar>"
    by (simp add: sgn_real_def)
  finally show ?thesis
    using bound by linarith
qed

lemma spec_example:
  "spec_mean cd_tmin (spec_window_records agg_daily ''abc1234'' 104) = Some (4 / 3)"
  "spec_total cd_rain (spec_window_records agg_daily ''abc1234'' 104) = Some 8"
  by (simp_all add: spec_mean_def spec_total_def spec_window_records_def agg_daily_def
      daily_record_def Let_def)






text \<open>
  Claim C6, as it holds of the code. Every aggregate written for a cell has the window
  [end - 6, end], and each of its averages is the arithmetic mean of the non-null
  values of the field, rounded to two decimals, over those daily records of the cell
  in the window that have a non-null minimum temperature (for the minimum temperature
  itself these are all its non-null values); the total precipitation is the sum of the
  non-null rain values over the same records, rounded to two decimals. The rounding
  moves a value by at most 0.005.
\<close>

theorem weekly_fields_are_rounded_means:
  assumes "(g, s, e, a_tmin, a_tmax, a_rad, t_rain, a_rh, a_wind, a_et0)
             \<in> set (weekly_data daily (target - 6) target m)"
  shows "s = target - 6 \<and> e = target
       \<and> a_tmin = map_option numeric_round2
           (spec_mean cd_tmin (spec_window_records daily g target))
       \<and> a_tmax = map_option numeric_round2
           (spec_mean cd_tmax
              (filter (\<lambda>r. cd_tmin r \<noteq> None) (spec_window_records daily g target)))
       \<and> a_rad = map_option numeric_round2
           (spec_mean cd_radiation
              (filter (\<lambda>r. cd_tmin r \<noteq> None) (spec_window_records daily g target)))
       \<and> t_rain = map_option numeric_round2
           (spec_total cd_rain
              (filter (\<lambda>r. cd_tmin r \<noteq> None) (spec_window_records daily g target)))
       \<and> a_rh = map_option numeric_round2
           (spec_mean cd_rh
              (filter (\<lambda>r. cd_tmin r \<noteq> None) (spec_window_records daily g target)))
       \<and> a_wind = map_option numeric_round2
           (spec_mean cd_wind
              (filter (\<lambda>r. cd_tmin r \<noteq> None) (spec_window_records daily g target)))
       \<and> a_et0 = map_option numeric_round2
           (spec_mean cd_et0
              (filter (\<lambda>r. cd_tmin r \<noteq> None) (spec_window_records daily g target)))
       \<and> \<bar>numeric_round2 x - x\<bar> \<le> 1 / 200"
proof -
  from assms obtain h where
    "(g, s, e, a_tmin, a_tmax, a_rad, t_rain, a_rh, a_wind, a_et0)
       = snd (window_query daily h (target - 6) target)"
    unfolding weekly_data_def weekly_loop_mem by blast
  then have t: "(g, s, e, a_tmin, a_tmax, a_rad, t_rain, a_rh, a_wind, a_et0)
       = snd (window_query daily g (target - 6) target)"
    using window_query_geohash [of daily h "target - 6" target]
    by (metis fst_conv)
  show ?thesis
    using t numeric_round2_error [of x]
    unfolding window_query_def Let_def window_rows_spec sql_avg_spec_mean sql_sum_spec_total
      sql_round2_def spec_mean_tmin_filter
    by simp
qed

theorem weekly_fields_are_rounded_means_witness:
  "(''abc1234'', 98, 104, Some (133 / 100), Some 20, Some 15, Some 3, Some 50, Some 2, Some 3)
     \<in> set (weekly_data agg_daily (104 - 6) 104 3)
   \<and> Some (133 / 100)
       = map_option numeric_round2 (spec_mean cd_tmin (spec_window_records agg_daily ''abc1234'' 104))
   \<and> Some 3
       = map_option numeric_round2
           (spec_total cd_rain
              (filter (\<lambda>r. cd_tmin r \<noteq> None) (spec_window_records agg_daily ''abc1234'' 104)))
   \<and> \<bar>numeric_round2 (4 / 3) - 4 / 3\<bar> \<le> (1 / 200 :: real)"
proof -
  have m: "(''abc1234'', 98, 104, Some (133 / 100), Some 20, Some 15, Some 3, Some 50, Some 2,
      Some 3) \<in> set (weekly_data agg_daily (104 - 6) 104 3)"
    using weekly_data_example by (simp add: tuple_abc_def)
  from weekly_fields_are_rounded_means [OF m, of "4 / 3"] m show ?thesis
    by blast
qed

text \<open>
  Claim C6 as it is stated fails. In the example table the first cell has the minimum
  temperatures 1, 1 and 2: their mean is 4/3 and the aggregate holds 1.33. The
  non-null rain values of the cell in the window sum to 8, and the aggregate holds 3:
  the day without a temperature does not contribute its 5 mm.
\<close>

theorem weekly_fields_differ_from_means:
  "weekly_data agg_daily (104 - 6) 104 3 = [tuple_abc]
   \<and> tuple_abc = (''abc1234'', 98, 104, Some (133 / 100), Some 20, Some 15, Some 3, Some 50,
                  Some 2, Some 3)
   \<and> spec_mean cd_tmin (spec_window_records agg_daily ''abc1234'' 104) = Some (4 / 3)
   \<and> spec_total cd_rain (spec_window_records agg_daily ''abc1234'' 104) = Some 8
   \<and> Some (133 / 100) \<noteq> (Some (4 / 3) :: real option)
   \<and> Some 3 \<noteq> (Some 8 :: real option)"
  using weekly_data_example spec_example by (simp add: tuple_abc_def)


end
